theory Spec2Isabelle
  imports Complex_Main
begin

section \<open>Numbers, errors and arrays\<close>

text \<open>
  The program computes with numpy complex floats. The embedding uses exact complex
  arithmetic, so rounding is not modelled: an equality proved here is the equality the
  floating-point code approximates. What is modelled is the one place where exact and
  float arithmetic differ in kind: numpy does not raise on a division by zero, it stores
  a non-finite value (inf or nan) and goes on. A value is therefore a
  \<open>complex option\<close>, \<open>None\<close> standing for a non-finite float, and every operation
  on a non-finite operand is non-finite again.
\<close>

type_synonym npc = "complex option"

definition nadd :: "npc \<Rightarrow> npc \<Rightarrow> npc" where
  "nadd a b = (case a of None \<Rightarrow> None
     | Some x \<Rightarrow> (case b of None \<Rightarrow> None | Some y \<Rightarrow> Some (x + y)))"

definition nsub :: "npc \<Rightarrow> npc \<Rightarrow> npc" where
  "nsub a b = (case a of None \<Rightarrow> None
     | Some x \<Rightarrow> (case b of None \<Rightarrow> None | Some y \<Rightarrow> Some (x - y)))"

definition nmul :: "npc \<Rightarrow> npc \<Rightarrow> npc" where
  "nmul a b = (case a of None \<Rightarrow> None
     | Some x \<Rightarrow> (case b of None \<Rightarrow> None | Some y \<Rightarrow> Some (x * y)))"

definition ndiv :: "npc \<Rightarrow> npc \<Rightarrow> npc" where
  "ndiv a b = (case a of None \<Rightarrow> None
     | Some x \<Rightarrow> (case b of None \<Rightarrow> None
         | Some y \<Rightarrow> if y = 0 then None else Some (x / y)))"

definition nneg :: "npc \<Rightarrow> npc" where
  "nneg a = map_option uminus a"

definition npow2 :: "npc \<Rightarrow> npc" where
  \<comment> \<open>\<open>z**2\<close>\<close>
  "npow2 a = map_option (\<lambda>x. x ^ 2) a"

definition nexp :: "npc \<Rightarrow> npc" where
  "nexp a = map_option exp a"

definition nreal :: "npc \<Rightarrow> npc" where
  \<comment> \<open>\<open>z.real\<close>\<close>
  "nreal a = map_option (\<lambda>x. complex_of_real (Re x)) a"

definition nimag :: "npc \<Rightarrow> npc" where
  \<comment> \<open>\<open>z.imag\<close>\<close>
  "nimag a = map_option (\<lambda>x. complex_of_real (Im x)) a"

text \<open>The exceptions the code can raise, and sequencing that stops at the first.\<close>

datatype error = TypeError | IndexError | ValueError | AttributeError | LinAlgError

definition ebind :: "error + 'a \<Rightarrow> ('a \<Rightarrow> error + 'b) \<Rightarrow> error + 'b" where
  "ebind m f = (case m of Inl e \<Rightarrow> Inl e | Inr x \<Rightarrow> f x)"

fun mapE :: "('a \<Rightarrow> error + 'b) \<Rightarrow> 'a list \<Rightarrow> error + 'b list" where
  "mapE f [] = Inr []"
| "mapE f (x # xs) = ebind (f x) (\<lambda>y. ebind (mapE f xs) (\<lambda>ys. Inr (y # ys)))"

definition getE :: "'a list \<Rightarrow> nat \<Rightarrow> error + 'a" where
  \<comment> \<open>\<open>xs[i]\<close> for a non-negative index\<close>
  "getE xs i = (if i < length xs then Inr (xs ! i) else Inl IndexError)"

text \<open>
  A scattering matrix of any port count is a nested list, as the rows of the array.
  \<open>entries2\<close> reads the four entries \<open>[0,0]\<close>, \<open>[0,1]\<close>, \<open>[1,0]\<close>, \<open>[1,1]\<close>
  the code uses; each read raises IndexError on a smaller array.
\<close>

type_synonym smat = "npc list list"

definition at2 :: "smat \<Rightarrow> nat \<Rightarrow> nat \<Rightarrow> error + npc" where
  "at2 m i j = ebind (getE m i) (\<lambda>row. getE row j)"

definition entries2 :: "smat \<Rightarrow> error + (npc \<times> npc \<times> npc \<times> npc)" where
  "entries2 m =
     ebind (at2 m 0 0) (\<lambda>s00. ebind (at2 m 0 1) (\<lambda>s01.
     ebind (at2 m 1 0) (\<lambda>s10. ebind (at2 m 1 1) (\<lambda>s11. Inr (s00, s01, s10, s11)))))"

text \<open>
  A network: the frequency points, the port count and one scattering matrix per point
  (an array of shape \<open>(N, nports, nports)\<close>; the port count is a field because a
  nested list of no matrices does not carry it).

  \<open>Network\<close> is the library constructor \<open>rf.Network(frequency=..., s=...)\<close>,
  which takes the port count from the array it is given. An array with one axis is
  read as a 1-port sweep: \<open>apply_cal\<close> relies on this when it returns a 1-port
  result, and the empty array \<open>np.array([])\<close> has one axis, too.
\<close>

record network =
  frequency :: "real list"
  nports :: nat
  s :: "smat list"

definition Network :: "real list \<Rightarrow> smat list \<Rightarrow> network" where
  "Network freq arr =
     \<lparr>frequency = freq, nports = (case arr of [] \<Rightarrow> 1 | m # _ \<Rightarrow> length m), s = arr\<rparr>"

definition reshape_1d :: "npc list \<Rightarrow> smat list" where
  \<comment> \<open>\<open>N\<close> values as an array of shape \<open>(N,1,1)\<close>\<close>
  "reshape_1d vs = map (\<lambda>v. [[v]]) vs"

section \<open>Switch-term correction\<close>

text \<open>
  A switch term is a 1-port network; only its \<open>s\<close> array, of shape \<open>(N,1,1)\<close>, is
  used, and it is kept here as its \<open>N\<close> values. \<open>squeeze()\<close> drops every axis of
  length one: for \<open>N \<noteq> 1\<close> a vector of \<open>N\<close> values is left, for \<open>N = 1\<close> a 0-d
  array, and \<open>zip\<close> raises TypeError when asked to iterate a 0-d array.
\<close>

datatype squeezed = Arr0 npc | Arr1 "npc list"

definition squeeze :: "npc list \<Rightarrow> squeezed" where
  "squeeze gs = (case gs of [g] \<Rightarrow> Arr0 g | _ \<Rightarrow> Arr1 gs)"

definition iter :: "squeezed \<Rightarrow> error + npc list" where
  "iter a = (case a of Arr0 _ \<Rightarrow> Inl TypeError | Arr1 gs \<Rightarrow> Inr gs)"

definition correct_sw_point :: "smat \<Rightarrow> npc \<Rightarrow> npc \<Rightarrow> error + smat" where
  "correct_sw_point S g21 g12 =
     ebind (entries2 S) (\<lambda>(S00, S01, S10, S11).
       let D = nsub (Some 1) (nmul (nmul (nmul S01 S10) g21) g12);
           S11' = ndiv (nsub S00 (nmul (nmul S01 S10) g21)) D;
           S12' = ndiv (nsub S01 (nmul (nmul S00 S01) g12)) D;
           S21' = ndiv (nsub S10 (nmul (nmul S11 S10) g21)) D;
           S22' = ndiv (nsub S11 (nmul (nmul S01 S10) g12)) D
       in Inr [[S11', S12'], [S21', S22']])"

definition correct_sw :: "network \<Rightarrow> npc list \<Rightarrow> npc list \<Rightarrow> error + network" where
  "correct_sw NW gamma_f gamma_r =
     ebind (iter (squeeze gamma_f)) (\<lambda>G21.
     ebind (iter (squeeze gamma_r)) (\<lambda>G12.
     ebind (mapE (\<lambda>(S, g21, g12). correct_sw_point S g21 g12) (zip (s NW) (zip G21 G12)))
       (\<lambda>SS. Inr (Network (frequency NW) SS))))"

section \<open>The error box\<close>

text \<open>
  The error box \<open>X\<close> is a \<open>4\<times>4\<close> array at each frequency (the solver's output
  contract), the vectors it is applied to have four entries, and the impedance
  transform is built from two \<open>2\<times>2\<close> arrays. These fixed shapes are types.
\<close>

datatype 'a vec2 = Vec2 (f0: 'a) (f1: 'a)

datatype 'a vec4 = Vec4 (e0: 'a) (e1: 'a) (e2: 'a) (e3: 'a)

type_synonym mat2 = "npc vec2 vec2"
type_synonym mat4 = "npc vec4 vec4"

definition dot4 :: "npc vec4 \<Rightarrow> npc vec4 \<Rightarrow> npc" where
  "dot4 u v = nadd (nadd (nadd (nmul (e0 u) (e0 v)) (nmul (e1 u) (e1 v)))
                 (nmul (e2 u) (e2 v))) (nmul (e3 u) (e3 v))"

definition col4 :: "('a vec4 \<Rightarrow> 'a) \<Rightarrow> 'a vec4 vec4 \<Rightarrow> 'a vec4" where
  "col4 e m = Vec4 (e (e0 m)) (e (e1 m)) (e (e2 m)) (e (e3 m))"

definition matvec :: "mat4 \<Rightarrow> npc vec4 \<Rightarrow> npc vec4" where
  \<comment> \<open>\<open>A @ v\<close>\<close>
  "matvec A v = map_vec4 (\<lambda>r. dot4 r v) A"

definition matmul :: "mat4 \<Rightarrow> mat4 \<Rightarrow> mat4" where
  \<comment> \<open>\<open>A @ B\<close>\<close>
  "matmul A B = map_vec4 (\<lambda>r. Vec4 (dot4 r (col4 e0 B)) (dot4 r (col4 e1 B))
                                    (dot4 r (col4 e2 B)) (dot4 r (col4 e3 B))) A"

definition smul :: "npc \<Rightarrow> mat4 \<Rightarrow> mat4" where
  \<comment> \<open>\<open>k * A\<close>\<close>
  "smul k A = map_vec4 (map_vec4 (nmul k)) A"

definition sdiv :: "mat4 \<Rightarrow> npc \<Rightarrow> mat4" where
  \<comment> \<open>\<open>A / c\<close>\<close>
  "sdiv A c = map_vec4 (map_vec4 (\<lambda>a. ndiv a c)) A"

definition diag :: "npc vec4 \<Rightarrow> mat4" where
  \<comment> \<open>\<open>np.diag\<close>\<close>
  "diag v = Vec4 (Vec4 (e0 v) (Some 0) (Some 0) (Some 0))
                 (Vec4 (Some 0) (e1 v) (Some 0) (Some 0))
                 (Vec4 (Some 0) (Some 0) (e2 v) (Some 0))
                 (Vec4 (Some 0) (Some 0) (Some 0) (e3 v))"

definition kron :: "mat2 \<Rightarrow> mat2 \<Rightarrow> mat4" where
  \<comment> \<open>\<open>np.kron\<close> of two \<open>2\<times>2\<close> arrays: block \<open>(i,j)\<close> is \<open>A[i,j] * B\<close>\<close>
  "kron A B =
     (let a = f0 (f0 A); b = f1 (f0 A); c = f0 (f1 A); d = f1 (f1 A);
          p = f0 (f0 B); q = f1 (f0 B); r = f0 (f1 B); t = f1 (f1 B)
      in Vec4 (Vec4 (nmul a p) (nmul a q) (nmul b p) (nmul b q))
              (Vec4 (nmul a r) (nmul a t) (nmul b r) (nmul b t))
              (Vec4 (nmul c p) (nmul c q) (nmul d p) (nmul d q))
              (Vec4 (nmul c r) (nmul c t) (nmul d r) (nmul d t)))"

definition fin4 :: "complex vec4 vec4 \<Rightarrow> mat4" where
  \<comment> \<open>an array all of whose entries are finite\<close>
  "fin4 m = map_vec4 (map_vec4 Some) m"

definition eye4 :: "complex vec4 vec4" where
  "eye4 = Vec4 (Vec4 1 0 0 0) (Vec4 0 1 0 0) (Vec4 0 0 1 0) (Vec4 0 0 0 1)"

section \<open>The calibration session\<close>

text \<open>
  The object's attributes. \<open>X\<close>, \<open>K\<close>, \<open>gamma\<close> and \<open>coefs\<close> do not exist until a
  sweep (or the caller) has stored them; reading a missing attribute raises
  AttributeError.
\<close>

record session =
  lines :: "network list"
  line_lengths :: "real list"
  reflect :: "network list"
  reflect_est :: "complex list"
  reflect_offset :: "real list"
  ereff_est :: complex
  switch_term :: "npc list list option"
  X :: "mat4 list option"
  K :: "npc list option"
  gamma :: "npc list option"
  coefs :: "(string \<rightharpoonup> npc list) option"

definition attr :: "'a option \<Rightarrow> error + 'a" where
  "attr a = (case a of None \<Rightarrow> Inl AttributeError | Some v \<Rightarrow> Inr v)"

definition init ::
  "network list \<Rightarrow> real list \<Rightarrow> network list \<Rightarrow> complex list \<Rightarrow> real list \<Rightarrow> complex
     \<Rightarrow> npc list list option \<Rightarrow> error + session" where
  \<comment> \<open>\<open>mTRL.__init__\<close>\<close>
  "init lines0 line_lengths0 reflect0 reflect_est0 reflect_offset0 ereff_est0 switch_term0 =
     (let self = \<lparr>lines = lines0, line_lengths = line_lengths0, reflect = reflect0,
                  reflect_est = reflect_est0, reflect_offset = reflect_offset0,
                  ereff_est = ereff_est0, switch_term = switch_term0,
                  X = None, K = None, gamma = None, coefs = None\<rparr>
      in case switch_term0 of
           None \<Rightarrow> Inr self
         | Some sw \<Rightarrow>
             (let corr = (\<lambda>NT. ebind (getE sw 0) (\<lambda>g_f. ebind (getE sw 1) (\<lambda>g_r.
                            correct_sw NT g_f g_r)))
              in ebind (mapE corr lines0) (\<lambda>ls.
                 ebind (mapE corr reflect0) (\<lambda>rs.
                 Inr (self\<lparr>lines := ls, reflect := rs\<rparr>)))))"

subsection \<open>Error coefficients\<close>

definition error_coef :: "session \<Rightarrow> error + session" where
  "error_coef self =
     ebind (attr (X self)) (\<lambda>xs.
       Inr (self\<lparr>coefs := Some (Map.empty
         (''ERF'' \<mapsto> map (\<lambda>x. nsub (e2 (e2 x)) (nmul (e3 (e2 x)) (e2 (e3 x)))) xs,
          ''EDF'' \<mapsto> map (\<lambda>x. e3 (e2 x)) xs,
          ''ESF'' \<mapsto> map (\<lambda>x. nneg (e2 (e3 x))) xs,
          ''ERR'' \<mapsto> map (\<lambda>x. nsub (e1 (e1 x)) (nmul (e1 (e3 x)) (e3 (e1 x)))) xs,
          ''EDR'' \<mapsto> map (\<lambda>x. nneg (e3 (e1 x))) xs,
          ''ESR'' \<mapsto> map (\<lambda>x. e1 (e3 x)) xs))\<rparr>))"

subsection \<open>Shifting the reference plane\<close>

definition shift_KX :: "real \<Rightarrow> mat4 \<Rightarrow> npc \<Rightarrow> npc \<Rightarrow> mat4" where
  \<comment> \<open>\<open>KX_new\<close> of one loop iteration\<close>
  "shift_KX d x k g =
     (let z = nexp (nmul (nneg g) (Some (complex_of_real d)))
      in matmul (smul k x)
           (diag (Vec4 (npow2 z) (Some 1) (Some 1) (ndiv (Some 1) (npow2 z)))))"

definition renormalize :: "mat4 \<Rightarrow> mat4 \<times> npc" where
  \<comment> \<open>the pair appended to \<open>X_new\<close> and \<open>K_new\<close>\<close>
  "renormalize KX_new = (sdiv KX_new (e3 (e3 KX_new)), e3 (e3 KX_new))"

definition shift_plane :: "real \<Rightarrow> session \<Rightarrow> error + session" where
  "shift_plane d self =
     ebind (attr (X self)) (\<lambda>xs. ebind (attr (K self)) (\<lambda>ks. ebind (attr (gamma self)) (\<lambda>gs.
       let new = map (\<lambda>(x, k, g). renormalize (shift_KX d x k g)) (zip xs (zip ks gs))
       in Inr (self\<lparr>X := Some (map fst new), K := Some (map snd new)\<rparr>))))"

subsection \<open>Renormalising the reference impedance\<close>

text \<open>
  \<open>Z_new\<close> and \<open>Z0\<close> are scalars or arrays. Arithmetic between two arrays follows
  numpy broadcasting: equal lengths go elementwise, a length of one is stretched, any
  other pair of lengths raises ValueError.
\<close>

datatype zarg = ZScalar npc | ZArray "npc list"

definition bcast2 :: "(npc \<Rightarrow> npc \<Rightarrow> npc) \<Rightarrow> npc list \<Rightarrow> npc list \<Rightarrow> error + npc list" where
  "bcast2 f xs ys =
     (if length xs = length ys then Inr (map (\<lambda>(x, y). f x y) (zip xs ys))
      else if length xs = 1 then Inr (map (f (hd xs)) ys)
      else if length ys = 1 then Inr (map (\<lambda>x. f x (hd ys)) xs)
      else Inl ValueError)"

definition times_ones :: "zarg \<Rightarrow> nat \<Rightarrow> error + npc list" where
  \<comment> \<open>\<open>Z * np.ones(N)\<close>\<close>
  "times_ones Z N = (case Z of
       ZScalar z \<Rightarrow> Inr (map (nmul z) (replicate N (Some 1)))
     | ZArray zs \<Rightarrow> bcast2 nmul zs (replicate N (Some 1)))"

definition renorm_KX :: "mat4 \<Rightarrow> npc \<Rightarrow> npc \<Rightarrow> mat4" where
  \<comment> \<open>\<open>KX_new\<close> of one loop iteration\<close>
  "renorm_KX x k g =
     sdiv (matmul (smul k x)
             (kron (Vec2 (Vec2 (Some 1) (nneg g)) (Vec2 (nneg g) (Some 1)))
                   (Vec2 (Vec2 (Some 1) g) (Vec2 g (Some 1)))))
          (nsub (Some 1) (npow2 g))"

definition renorm_G :: "zarg \<Rightarrow> zarg \<Rightarrow> nat \<Rightarrow> error + npc list" where
  \<comment> \<open>the array \<open>G\<close>\<close>
  "renorm_G Z_new Z0 N =
     ebind (times_ones Z_new N) (\<lambda>Zn. ebind (times_ones Z0 N) (\<lambda>Zo.
     ebind (bcast2 nsub Zn Zo) (\<lambda>num. ebind (bcast2 nadd Zn Zo) (\<lambda>den.
       bcast2 ndiv num den))))"

definition renorm_impedance :: "zarg \<Rightarrow> zarg \<Rightarrow> session \<Rightarrow> error + session" where
  "renorm_impedance Z_new Z0 self =
     ebind (attr (K self)) (\<lambda>ks.
     ebind (renorm_G Z_new Z0 (length ks)) (\<lambda>G.
     ebind (attr (X self)) (\<lambda>xs.
       let new = map (\<lambda>(x, k, g). renormalize (renorm_KX x k g)) (zip xs (zip ks G))
       in Inr (self\<lparr>X := Some (map fst new), K := Some (map snd new)\<rparr>))))"

subsection \<open>Applying the calibration\<close>

text \<open>
  Two library functions are used by \<open>apply_cal\<close>. \<open>rf.two_port_reflect\<close> builds
  the 2-port whose two reflections are the 1-port's \<open>s[:,0,0]\<close> and whose
  transmissions are zero. \<open>np.linalg.pinv\<close> is a parameter of the model: what is
  needed of it is stated where it is needed, by the Moore-Penrose equations that
  define a pseudo-inverse.
\<close>

definition two_port_reflect :: "network \<Rightarrow> error + network" where
  "two_port_reflect NW =
     (if nports NW = 0 then Inl IndexError
      else ebind (mapE (\<lambda>m. ebind (at2 m 0 0) (\<lambda>v. Inr [[v, Some 0], [Some 0, v]])) (s NW))
             (\<lambda>ss. Inr \<lparr>frequency = frequency NW, nports = 2, s = ss\<rparr>))"

definition apply_cal_point :: "(mat4 \<Rightarrow> error + mat4) \<Rightarrow> mat4 \<Rightarrow> npc \<Rightarrow> smat \<Rightarrow> error + smat" where
  \<comment> \<open>one iteration of the loop: the matrix appended to \<open>S_cal\<close>\<close>
  "apply_cal_point pinv x k sm =
     ebind (pinv x) (\<lambda>xinv.
     ebind (entries2 sm) (\<lambda>(s00, s01, s10, s11).
       let M' = Vec4 (nadd (nmul (nneg s00) s11) (nmul s01 s10)) (nneg s11) s00 (Some 1);
           T' = matvec xinv M';
           s21_cal = ndiv (nmul k s10) (e3 T');
           T'' = map_vec4 (\<lambda>t. ndiv t (e3 T')) T'
       in Inr [[e2 T'', ndiv (nsub (e0 T'') (nmul (e2 T'') (e1 T''))) s21_cal],
               [s21_cal, nneg (e1 T'')]]))"

definition apply_cal ::
  "(mat4 \<Rightarrow> error + mat4) \<Rightarrow> session \<Rightarrow> network \<Rightarrow> bool \<Rightarrow> error + network" where
  "apply_cal pinv self NW0 left =
     (let np = nports NW0 in
      ebind (if np < 2 then two_port_reflect NW0 else Inr NW0) (\<lambda>NW1.
      ebind (case switch_term self of
               None \<Rightarrow> Inr NW1
             | Some sw \<Rightarrow> ebind (getE sw 0) (\<lambda>g_f. ebind (getE sw 1) (\<lambda>g_r.
                          correct_sw NW1 g_f g_r))) (\<lambda>NW.
      ebind (attr (X self)) (\<lambda>xs. ebind (attr (K self)) (\<lambda>ks.
      ebind (mapE (\<lambda>(x, k, sm). apply_cal_point pinv x k sm) (zip xs (zip ks (s NW))))
        (\<lambda>S_cal.
           let freq = frequency NW in
           if np < 2 then
             (if S_cal = [] then Inl IndexError
              else if left then Inr (Network freq (reshape_1d (map (\<lambda>m. m ! 0 ! 0) S_cal)))
              else Inr (Network freq (reshape_1d (map (\<lambda>m. m ! 1 ! 1) S_cal))))
           else Inr (Network freq S_cal)))))))"

subsection \<open>The classical sweep\<close>

text \<open>
  The solver \<open>MultiCal.mTRL\<close> and the conversion \<open>rf.s2t\<close> are outside the
  program and are parameters. The loop is a recursion over \<open>enumerate(f)\<close> that
  carries the guess \<open>gamma_0\<close>. Its first result is the list of the guesses handed to
  the solver, one per call, in the order of the calls; its second is what the loop
  leaves: the tuples \<open>(X, K, gamma)\<close> collected and the last value of \<open>gamma_0\<close>,
  or the exception that ended it.
\<close>

type_synonym solver =
  "smat list \<Rightarrow> real list \<Rightarrow> smat list \<Rightarrow> npc \<Rightarrow> complex list \<Rightarrow> real list
     \<Rightarrow> error + (mat4 \<times> npc \<times> npc)"

definition c0 :: real where
  "c0 = 299792458"

definition extrapolate :: "npc \<Rightarrow> real \<Rightarrow> real \<Rightarrow> npc" where
  \<comment> \<open>\<open>gamma.real + 1j*gamma.imag*f[inx+1]/ff\<close>\<close>
  "extrapolate g f_next ff =
     nadd (nreal g)
       (ndiv (nmul (nmul (Some \<i>) (nimag g)) (Some (complex_of_real f_next)))
             (Some (complex_of_real ff)))"

fun mc_loop ::
  "solver \<Rightarrow> smat list list \<Rightarrow> real list \<Rightarrow> smat list list \<Rightarrow> complex list \<Rightarrow> real list
     \<Rightarrow> real list \<Rightarrow> (nat \<times> real) list \<Rightarrow> npc
     \<Rightarrow> npc list \<times> (error + ((mat4 \<times> npc \<times> npc) list \<times> npc))" where
  "mc_loop solve T_lines lens S_short r_est r_off f [] gamma_0 = ([], Inr ([], gamma_0))"
| "mc_loop solve T_lines lens S_short r_est r_off f ((inx, ff) # rest) gamma_0 =
     (case mapE (\<lambda>x. getE x inx) T_lines of
        Inl e \<Rightarrow> ([], Inl e)
      | Inr meas_lines_T \<Rightarrow>
     (case mapE (\<lambda>x. getE x inx) S_short of
        Inl e \<Rightarrow> ([], Inl e)
      | Inr meas_reflect_S \<Rightarrow>
     (case solve meas_lines_T lens meas_reflect_S gamma_0 r_est r_off of
        Inl e \<Rightarrow> ([gamma_0], Inl e)
      | Inr (x, k, g) \<Rightarrow>
          (let gamma_0' = (if inx + 1 < length f then extrapolate g (f ! (inx + 1)) ff
                           else gamma_0);
               (guesses, out) = mc_loop solve T_lines lens S_short r_est r_off f rest gamma_0'
           in (gamma_0 # guesses,
               ebind out (\<lambda>(res, last). Inr ((x, k, g) # res, last)))))))"

definition initial_guess :: "complex \<Rightarrow> real \<Rightarrow> npc" where
  \<comment> \<open>\<open>gamma_0\<close> before the loop\<close>
  "initial_guess ereff_0 f_0 =
     (let gamma_0 = complex_of_real (2 * pi * f_0 / c0) * csqrt (- ereff_0)
      in Some (complex_of_real \<bar>Re gamma_0\<bar> + \<i> * complex_of_real \<bar>Im gamma_0\<bar>))"

definition run_multical ::
  "solver \<Rightarrow> (smat list \<Rightarrow> error + smat list) \<Rightarrow> session \<Rightarrow> error + session" where
  "run_multical solve s2t self =
     ebind (getE (lines self) 0) (\<lambda>l0.
       let f = frequency l0 in
       ebind (mapE (\<lambda>x. s2t (s x)) (lines self)) (\<lambda>T_lines.
         let S_short = map s (reflect self) in
         ebind (getE f 0) (\<lambda>f_0.
         ebind (snd (mc_loop solve T_lines (line_lengths self) S_short (reflect_est self)
                       (reflect_offset self) f (enumerate 0 f)
                       (initial_guess (ereff_est self) f_0))) (\<lambda>(res, last).
           error_coef (self\<lparr>X := Some (map fst res),
                            K := Some (map (\<lambda>r. fst (snd r)) res),
                            gamma := Some (map (\<lambda>r. snd (snd r)) res)\<rparr>)))))"

section \<open>Example data\<close>

text \<open>Concrete arrays and sessions, on which the theorems below are instantiated.\<close>

definition example_X :: mat4 where
  "example_X = fin4 (Vec4 (Vec4 1 2 3 4) (Vec4 5 6 7 8) (Vec4 9 10 11 12) (Vec4 13 14 15 1))"

definition example_session :: session where
  "example_session =
     \<lparr>lines = [], line_lengths = [], reflect = [], reflect_est = [], reflect_offset = [],
      ereff_est = 1, switch_term = None,
      X = Some [example_X], K = Some [Some 2], gamma = Some [Some 1], coefs = None\<rparr>"

definition topleft2 :: "smat \<Rightarrow> smat" where
  \<comment> \<open>the leading \<open>2\<times>2\<close> block of a scattering matrix\<close>
  "topleft2 m = map (take 2) (take 2 m)"

definition example_line :: network where
  "example_line = \<lparr>frequency = [1, 2], nports = 2,
      s = [[[Some 0, Some 1], [Some 1, Some 0]], [[Some 0, Some \<i>], [Some \<i>, Some 0]]]\<rparr>"

definition example_point_network :: network where
  "example_point_network = \<lparr>frequency = [1], nports = 2,
      s = [[[Some (1 / 10), Some (9 / 10)], [Some (9 / 10), Some (1 / 10)]]]\<rparr>"

definition example_three_port :: network where
  "example_three_port = \<lparr>frequency = [1], nports = 3,
      s = [[[Some 1, Some 2, Some 3], [Some 4, Some 5, Some 6], [Some 7, Some 8, Some 9]]]\<rparr>"

definition identity_session :: session where
  "identity_session = example_session\<lparr>X := Some [fin4 eye4], K := Some [Some 1]\<rparr>"

section \<open>Properties\<close>

subsection \<open>Evaluation rules\<close>

lemma nadd_simps [simp]:
  "nadd (Some x) (Some y) = Some (x + y)" "nadd None b = None" "nadd a None = None"
  by (simp_all add: nadd_def split: option.splits)

lemma nsub_simps [simp]:
  "nsub (Some x) (Some y) = Some (x - y)" "nsub None b = None" "nsub a None = None"
  by (simp_all add: nsub_def split: option.splits)

lemma nmul_simps [simp]:
  "nmul (Some x) (Some y) = Some (x * y)" "nmul None b = None" "nmul a None = None"
  by (simp_all add: nmul_def split: option.splits)

lemma ndiv_simps [simp]:
  "ndiv (Some x) (Some y) = (if y = 0 then None else Some (x / y))"
  "ndiv None b = None" "ndiv a None = None"
  by (simp_all add: ndiv_def split: option.splits)

lemma nneg_simps [simp]: "nneg (Some x) = Some (- x)" "nneg None = None"
  by (simp_all add: nneg_def)

lemma npow2_simps [simp]: "npow2 (Some x) = Some (x ^ 2)" "npow2 None = None"
  by (simp_all add: npow2_def)

lemma nexp_simps [simp]: "nexp (Some x) = Some (exp x)" "nexp None = None"
  by (simp_all add: nexp_def)

lemma ebind_simps [simp]: "ebind (Inl e) f = Inl e" "ebind (Inr x) f = f x"
  by (simp_all add: ebind_def)

lemma attr_simps [simp]: "attr None = Inl AttributeError" "attr (Some v) = Inr v"
  by (simp_all add: attr_def)

subsection \<open>Error coefficients\<close>

text \<open>
  Claim C6. Once \<open>error_coef\<close> has run on a session that holds \<open>X\<close>, the mapping
  \<open>coefs\<close> has the six sequences, each as long as \<open>X\<close>, and at every frequency index
  \<open>EDF = X[2,3]\<close>, \<open>ESF = -X[3,2]\<close>, \<open>ERF = X[2,2] - X[2,3]*X[3,2]\<close>,
  \<open>ERR = X[1,1] - X[3,1]*X[1,3]\<close>, \<open>EDR = -X[1,3]\<close> and \<open>ESR = X[3,1]\<close>. Nothing
  but \<open>coefs\<close> changes in the session.
\<close>

theorem error_coef_formulas:
  assumes "X self = Some xs"
  shows "\<exists>c ERF EDF ESF ERR EDR ESR.
     error_coef self = Inr (self\<lparr>coefs := Some c\<rparr>) \<and>
     c ''ERF'' = Some ERF \<and> c ''EDF'' = Some EDF \<and> c ''ESF'' = Some ESF \<and>
     c ''ERR'' = Some ERR \<and> c ''EDR'' = Some EDR \<and> c ''ESR'' = Some ESR \<and>
     length ERF = length xs \<and> length EDF = length xs \<and> length ESF = length xs \<and>
     length ERR = length xs \<and> length EDR = length xs \<and> length ESR = length xs \<and>
     (\<forall>i < length xs.
        EDF ! i = e3 (e2 (xs ! i)) \<and>
        ESF ! i = nneg (e2 (e3 (xs ! i))) \<and>
        ERF ! i = nsub (e2 (e2 (xs ! i))) (nmul (e3 (e2 (xs ! i))) (e2 (e3 (xs ! i)))) \<and>
        ERR ! i = nsub (e1 (e1 (xs ! i))) (nmul (e1 (e3 (xs ! i))) (e3 (e1 (xs ! i)))) \<and>
        EDR ! i = nneg (e3 (e1 (xs ! i))) \<and>
        ESR ! i = e1 (e3 (xs ! i)))"
  using assms
  by (intro exI[of _ "Map.empty
         (''ERF'' \<mapsto> map (\<lambda>x. nsub (e2 (e2 x)) (nmul (e3 (e2 x)) (e2 (e3 x)))) xs,
          ''EDF'' \<mapsto> map (\<lambda>x. e3 (e2 x)) xs,
          ''ESF'' \<mapsto> map (\<lambda>x. nneg (e2 (e3 x))) xs,
          ''ERR'' \<mapsto> map (\<lambda>x. nsub (e1 (e1 x)) (nmul (e1 (e3 x)) (e3 (e1 x)))) xs,
          ''EDR'' \<mapsto> map (\<lambda>x. nneg (e3 (e1 x))) xs,
          ''ESR'' \<mapsto> map (\<lambda>x. e1 (e3 x)) xs)"])
     (simp add: error_coef_def)

theorem error_coef_formulas_witness:
  "\<exists>c ERF EDF ESF ERR EDR ESR.
     error_coef example_session = Inr (example_session\<lparr>coefs := Some c\<rparr>) \<and>
     c ''ERF'' = Some ERF \<and> c ''EDF'' = Some EDF \<and> c ''ESF'' = Some ESF \<and>
     c ''ERR'' = Some ERR \<and> c ''EDR'' = Some EDR \<and> c ''ESR'' = Some ESR \<and>
     EDF = [Some 12] \<and> ESF = [Some (- 15)] \<and> ERF = [Some (11 - 12 * 15)] \<and>
     ERR = [Some (6 - 14 * 8)] \<and> EDR = [Some (- 8)] \<and> ESR = [Some 14]"
proof -
  have h: "X example_session = Some [example_X]"
    by (simp add: example_session_def)
  from error_coef_formulas [OF h]
  obtain c ERF EDF ESF ERR EDR ESR where
    r: "error_coef example_session = Inr (example_session\<lparr>coefs := Some c\<rparr>)"
       "c ''ERF'' = Some ERF" "c ''EDF'' = Some EDF" "c ''ESF'' = Some ESF"
       "c ''ERR'' = Some ERR" "c ''EDR'' = Some EDR" "c ''ESR'' = Some ESR"
    and l: "length ERF = 1" "length EDF = 1" "length ESF = 1"
       "length ERR = 1" "length EDR = 1" "length ESR = 1"
    and v: "EDF ! 0 = e3 (e2 example_X)" "ESF ! 0 = nneg (e2 (e3 example_X))"
       "ERF ! 0 = nsub (e2 (e2 example_X)) (nmul (e3 (e2 example_X)) (e2 (e3 example_X)))"
       "ERR ! 0 = nsub (e1 (e1 example_X)) (nmul (e1 (e3 example_X)) (e3 (e1 example_X)))"
       "EDR ! 0 = nneg (e3 (e1 example_X))" "ESR ! 0 = e1 (e3 example_X)"
    by auto
  have one: "\<And>ys y. length ys = 1 \<Longrightarrow> ys ! 0 = y \<Longrightarrow> ys = [y::npc]"
    by (simp add: length_Suc_conv) auto
  have "EDF = [Some 12]" "ESF = [Some (- 15)]" "ERF = [Some (11 - 12 * 15)]"
       "ERR = [Some (6 - 14 * 8)]" "EDR = [Some (- 8)]" "ESR = [Some 14]"
    using l v by (auto intro!: one simp: example_X_def fin4_def)
  with r show ?thesis by blast
qed

subsection \<open>Sequencing\<close>

lemma mapE_map: "mapE f (map g xs) = mapE (\<lambda>x. f (g x)) xs"
  by (induction xs) simp_all

lemma mapE_Inr: "(\<And>x. x \<in> set xs \<Longrightarrow> f x = Inr (g x)) \<Longrightarrow> mapE f xs = Inr (map g xs)"
  by (induction xs) simp_all

lemma at2_topleft2: "i < 2 \<Longrightarrow> j < 2 \<Longrightarrow> at2 (topleft2 m) i j = at2 m i j"
  by (auto simp: at2_def getE_def topleft2_def)

lemma entries2_topleft2: "entries2 (topleft2 m) = entries2 m"
  by (simp add: entries2_def at2_topleft2)

subsection \<open>The constructor\<close>

text \<open>
  Claim C3 says that a session built with \<open>len(line_lengths) \<noteq> len(lines)\<close> is refused
  with a ContractViolation. The constructor compares no lengths: with two line lengths
  for one line it returns the session.
\<close>

theorem init_length_mismatch_counterexample:
  "length [0, 1 / 100 :: real] \<noteq> length [example_line] \<and>
   init [example_line] [0, 1 / 100] [example_line] [- 1] [0] 1 None =
     Inr \<lparr>lines = [example_line], line_lengths = [0, 1 / 100], reflect = [example_line],
          reflect_est = [- 1], reflect_offset = [0], ereff_est = 1, switch_term = None,
          X = None, K = None, gamma = None, coefs = None\<rparr>"
  by (simp add: init_def)

text \<open>
  Claim C3, amended. The constructor makes no length check and calls no solver. Without
  switch terms it cannot fail: it returns the session that holds its arguments as they
  were given, whatever their lengths. With switch terms, whether it fails and what it
  stores for every other attribute do not depend on \<open>line_lengths\<close>.
\<close>

theorem init_checks_no_lengths:
  "init ls lens rs r_est r_off er None =
     Inr \<lparr>lines = ls, line_lengths = lens, reflect = rs, reflect_est = r_est,
          reflect_offset = r_off, ereff_est = er, switch_term = None,
          X = None, K = None, gamma = None, coefs = None\<rparr> \<and>
   init ls lens rs r_est r_off er sw =
     map_sum id (\<lambda>self. self\<lparr>line_lengths := lens\<rparr>) (init ls lens' rs r_est r_off er sw)"
  by (auto simp: init_def Let_def ebind_def split: option.splits sum.splits)

subsection \<open>Switch-term correction\<close>

text \<open>
  With both switch terms zero, \<open>correct_sw\<close> returns the scattering matrices it was
  given, on every sweep that does not consist of exactly one frequency point.
\<close>

lemma correct_sw_point_zero:
  "correct_sw_point [[Some a, Some b], [Some c, Some d]] (Some 0) (Some 0)
     = Inr [[Some a, Some b], [Some c, Some d]]"
  by (simp add: correct_sw_point_def entries2_def at2_def getE_def)

lemma squeeze_replicate: "n \<noteq> 1 \<Longrightarrow> iter (squeeze (replicate n g)) = Inr (replicate n g)"
  by (cases n; cases "n - 1") (auto simp: squeeze_def iter_def)

lemma mapE_correct_sw_point_zero:
  assumes "\<And>m. m \<in> set ss \<Longrightarrow> \<exists>a b c d. m = [[Some a, Some b], [Some c, Some d]]"
  shows "mapE (\<lambda>(S, g21, g12). correct_sw_point S g21 g12)
           (zip ss (replicate (length ss) (Some 0, Some 0))) = Inr ss"
  using assms
proof (induction ss)
  case Nil
  show ?case by simp
next
  case (Cons m ss)
  from Cons.prems [of m] obtain a b c d where m: "m = [[Some a, Some b], [Some c, Some d]]"
    by auto
  have "mapE (\<lambda>(S, g21, g12). correct_sw_point S g21 g12)
           (zip ss (replicate (length ss) (Some 0, Some 0))) = Inr ss"
    by (rule Cons.IH) (simp add: Cons.prems)
  then show ?case
    by (simp add: m correct_sw_point_zero)
qed

lemma correct_sw_zero_terms:
  assumes n: "length (s NW) = n" "n \<noteq> 1"
    and fin: "\<And>m. m \<in> set (s NW) \<Longrightarrow> \<exists>a b c d. m = [[Some a, Some b], [Some c, Some d]]"
  shows "correct_sw NW (replicate n (Some 0)) (replicate n (Some 0))
           = Inr (Network (frequency NW) (s NW))"
proof -
  have "mapE (\<lambda>(S, g21, g12). correct_sw_point S g21 g12)
           (zip (s NW) (replicate (length (s NW)) (Some 0, Some 0))) = Inr (s NW)"
    by (rule mapE_correct_sw_point_zero) (rule fin)
  with n show ?thesis
    by (simp add: correct_sw_def squeeze_replicate)
qed

text \<open>
  Claim C9 says that with both switch terms zero at all frequencies the correction
  returns the network unchanged. On a sweep of one frequency point it returns nothing:
  \<open>squeeze()\<close> turns the switch term's array of shape \<open>(1,1,1)\<close> into a 0-d array,
  and \<open>zip\<close> raises TypeError.
\<close>

theorem correct_sw_single_point:
  "correct_sw example_point_network [Some 0] [Some 0] = Inl TypeError"
  by (simp add: correct_sw_def squeeze_def iter_def)

subsection \<open>Port counts\<close>

text \<open>
  Claim C8 says that a network of neither one nor two ports is refused with a
  PortCountError. A 3-port network is processed: the result is the calibrated leading
  \<open>2\<times>2\<close> block.
\<close>

theorem apply_cal_three_port_counterexample:
  "nports example_three_port = 3 \<and>
   apply_cal (\<lambda>x. Inr x) identity_session example_three_port True =
     Inr \<lparr>frequency = [1], nports = 2, s = [[[Some 1, Some 2], [Some 4, Some 5]]]\<rparr>"
  by (simp add: example_three_port_def identity_session_def example_session_def apply_cal_def
      apply_cal_point_def entries2_def at2_def getE_def fin4_def eye4_def matvec_def dot4_def
      Network_def)

lemma correct_sw_point_topleft2: "correct_sw_point (topleft2 S) = correct_sw_point S"
  by (simp add: correct_sw_point_def entries2_topleft2 fun_eq_iff)

lemma correct_sw_topleft2:
  "correct_sw (NW\<lparr>nports := n, s := map topleft2 (s NW)\<rparr>) = correct_sw NW"
  by (simp add: correct_sw_def zip_map1 mapE_map case_prod_unfold correct_sw_point_topleft2
      fun_eq_iff)

lemma apply_cal_point_topleft2:
  "apply_cal_point pinv x k (topleft2 sm) = apply_cal_point pinv x k sm"
  by (simp add: apply_cal_point_def entries2_topleft2)

text \<open>
  Claim C8, amended. \<open>apply_cal\<close> makes no check of the port count and has no
  PortCountError to raise. Given a network of two or more ports it reads the entries
  \<open>[0,0]\<close>, \<open>[0,1]\<close>, \<open>[1,0]\<close>, \<open>[1,1]\<close> of each scattering matrix and nothing
  else: its outcome is the one it has on the 2-port network made of the leading
  \<open>2\<times>2\<close> blocks.
\<close>

theorem apply_cal_ignores_port_count:
  assumes "2 \<le> nports NW"
  shows "apply_cal pinv self NW left =
         apply_cal pinv self (NW\<lparr>nports := 2, s := map topleft2 (s NW)\<rparr>) left"
proof (cases "switch_term self")
  case None
  with assms show ?thesis
    by (simp add: apply_cal_def zip_map2 mapE_map case_prod_unfold apply_cal_point_topleft2)
next
  case (Some sw)
  with assms show ?thesis
    by (simp add: apply_cal_def correct_sw_topleft2)
qed

theorem apply_cal_ignores_port_count_witness:
  "2 \<le> nports example_three_port \<and>
   apply_cal (\<lambda>x. Inr x) identity_session example_three_port True =
   apply_cal (\<lambda>x. Inr x) identity_session
     \<lparr>frequency = [1], nports = 2, s = [[[Some 1, Some 2], [Some 4, Some 5]]]\<rparr> True"
proof -
  have h: "2 \<le> nports example_three_port"
    by (simp add: example_three_port_def)
  show ?thesis
    using h apply_cal_ignores_port_count [OF h, of "\<lambda>x. Inr x" identity_session True]
    by (simp add: example_three_port_def topleft2_def)
qed

end
